theory Spec2Isabelle
  imports Main
begin

section \<open>Data model of the session provider (src/providers/AuthProvider.tsx)\<close>

text \<open>
  A Firebase \<open>User\<close> is an object; React compares the dependencies of an effect with
  \<open>Object.is\<close>, that is by object identity. The field \<open>oid\<close> stands for that identity,
  so that equality of two records is identity of the two objects. \<open>uid\<close> is typed
  \<open>string\<close> in the source, and the model keeps every string: the code tests it for
  truthiness (\<open>user?.uid\<close>) and hands it to \<open>doc()\<close>, which rejects some strings.
  \<open>email\<close> is \<open>string | null\<close>.
\<close>

record User =
  oid :: nat
  uid :: string
  email :: "string option"

text \<open>
  A value thrown by a remote call, reduced to what the handlers read of it:
  \<open>ex.message\<close>, \<open>Object.hasOwnProperty.call(ex, 'message')\<close> and \<open>JSON.stringify(ex)\<close>.
\<close>

record exn =
  message :: string
  hasOwnMessage :: bool
  json :: string

text \<open>
  \<open>DocumentData\<close> is an object of fields; the only field values the source builds are
  strings and the \<open>serverTimestamp()\<close> sentinel. The fields are kept in the order of the
  object literal.
\<close>

datatype field_value = Str string | ServerTimestamp

type_synonym DocumentData = "(string \<times> field_value) list"

text \<open>
  The \<open>profile\<close> state is declared \<open>DocumentData | null\<close>, but \<open>setProfile(profileData!)\<close>
  stores \<open>undefined\<close> when the snapshot has no data, so the model has both.
\<close>

datatype profile_value = Null | Undefined | Data DocumentData

fun is_document :: "profile_value \<Rightarrow> bool" where
  "is_document (Data d) = True"
| "is_document Null = False"
| "is_document Undefined = False"

text \<open>
  The four \<open>useState\<close> cells of \<open>AuthProvider\<close> as React last committed them, and what
  the profile effect has left behind: \<open>docSub\<close>, the path of the document whose
  \<open>onSnapshot\<close> subscription is open (the \<open>docRef\<close> captured by the callbacks), or
  \<open>None\<close> when the last effect run returned no unsubscribe function or it has been
  called; and \<open>effectUser\<close>, the value of \<open>user\<close> the effect last ran with, against which
  React compares the dependency. \<open>authErrorMessages\<close> is \<open>string[] | undefined\<close>.
\<close>

record SessionState =
  user :: "User option"
  profile :: profile_value
  authLoading :: bool
  authErrorMessages :: "string list option"
  docSub :: "string option"
  effectUser :: "User option"

text \<open>
  The state at mount: the initial values of the \<open>useState\<close> calls, nothing subscribed.
  The first run of the profile effect, with no user, writes the same values again.
\<close>

definition initialState :: SessionState where
  "initialState =
     \<lparr>user = None, profile = Null, authLoading = True, authErrorMessages = None,
      docSub = None, effectUser = None\<rparr>"

text \<open>The error list as the ordered sequence the specification speaks of.\<close>

definition errorMessages :: "SessionState \<Rightarrow> string list" where
  "errorMessages s = (case authErrorMessages s of None \<Rightarrow> [] | Some ms \<Rightarrow> ms)"

definition PROFILE_COLLECTION :: string where
  "PROFILE_COLLECTION = ''users''"

section \<open>Document references\<close>

text \<open>
  \<open>doc(myFS, path, id)\<close> of the Firestore client, as far as lines 67 and 143 use it: the
  path of the reference it returns (\<open>docRef.path\<close>), or the kind of error it throws. The
  client refuses an empty first argument and any argument containing \<open>//\<close>, splits the
  arguments at the slashes, drops the empty segments, and refuses an odd number of
  segments; the path is the segments joined by slashes.
\<close>

fun has_double_slash :: "string \<Rightarrow> bool" where
  "has_double_slash (a # b # cs) = ((a = CHR ''/'' \<and> b = CHR ''/'') \<or> has_double_slash (b # cs))"
| "has_double_slash [a] = False"
| "has_double_slash [] = False"

text \<open>\<open>String.prototype.split('/')\<close>.\<close>

fun split_slash :: "string \<Rightarrow> string list" where
  "split_slash [] = [[]]"
| "split_slash (c # cs) =
     (if c = CHR ''/'' then [] # split_slash cs
      else (case split_slash cs of [] \<Rightarrow> [[c]] | seg # segs \<Rightarrow> (c # seg) # segs))"

definition segments :: "string \<Rightarrow> string list" where
  "segments p = filter (\<lambda>seg. seg \<noteq> []) (split_slash p)"

fun join_slash :: "string list \<Rightarrow> string" where
  "join_slash [] = []"
| "join_slash [seg] = seg"
| "join_slash (seg # nxt # rest) = seg @ CHR ''/'' # join_slash (nxt # rest)"

datatype doc_error = EmptyPath | InvalidSegment | OddSegments

definition doc :: "string \<Rightarrow> string \<Rightarrow> doc_error + string" where
  "doc path ident =
     (if path = [] then Inl EmptyPath
      else if has_double_slash path \<or> has_double_slash ident then Inl InvalidSegment
      else if even (length (segments path @ segments ident))
        then Inr (join_slash (segments path @ segments ident))
        else Inl OddSegments)"

text \<open>
  An id of one path segment: not empty and without a slash. The ids the identity service
  issues are of this kind.
\<close>

definition single_segment :: "string \<Rightarrow> bool" where
  "single_segment ident = (ident \<noteq> [] \<and> CHR ''/'' \<notin> set ident)"

section \<open>The profile effect and rendering\<close>

text \<open>
  The second \<open>useEffect\<close> (lines 65-108) when it runs with no user: the cleanup of the
  previous run (the unsubscribe function, if one was returned), then lines 104-106.
\<close>

definition signed_out_effect :: "SessionState \<Rightarrow> SessionState" where
  "signed_out_effect s =
     s\<lparr>docSub := None, effectUser := None, authLoading := True, profile := Null,
       authErrorMessages := None\<rparr>"

text \<open>
  A run of the effect: the cleanup, then the body. With a truthy \<open>uid\<close> it calls
  \<open>doc()\<close> and subscribes to the reference; with a user whose \<open>uid\<close> is falsy neither
  branch is taken. When \<open>doc()\<close> throws, the error leaves the effect, React unmounts the
  tree and the provider is gone: the result is \<open>None\<close>.
\<close>

definition profile_effect :: "SessionState \<Rightarrow> SessionState option" where
  "profile_effect s =
     (case user s of
        None \<Rightarrow> Some (signed_out_effect s)
      | Some u \<Rightarrow>
          if uid u \<noteq> [] then
            (case doc PROFILE_COLLECTION (uid u) of
               Inl err \<Rightarrow> None
             | Inr path \<Rightarrow> Some (s\<lparr>docSub := Some path, effectUser := Some u\<rparr>))
          else Some (s\<lparr>docSub := None, effectUser := Some u\<rparr>))"

text \<open>
  After React has committed a render it runs the profile effect, if the dependency
  \<open>user\<close> is another object than at the effect's last run (\<open>myFS\<close> and \<open>setProfile\<close>
  never change). The updates the effect makes do not touch \<open>user\<close>, so the render they
  cause runs no effect.
\<close>

definition flush_effects :: "SessionState \<Rightarrow> SessionState option" where
  "flush_effects s = (if user s = effectUser s then Some s else profile_effect s)"

text \<open>The same for a committed render with no user, where the effect cannot throw.\<close>

definition flush_signed_out :: "SessionState \<Rightarrow> SessionState" where
  "flush_signed_out s = (if effectUser s = None then s else signed_out_effect s)"

section \<open>Stream callbacks\<close>

text \<open>The \<open>onAuthStateChanged\<close> callback (lines 55-58): two updates, committed together.\<close>

definition onAuthStateChanged_cb :: "SessionState \<Rightarrow> User option \<Rightarrow> SessionState" where
  "onAuthStateChanged_cb s u = s\<lparr>user := u, authLoading := False\<rparr>"

definition no_profile_msg :: "string \<Rightarrow> string" where
  "no_profile_msg path = ''No profile doc found in Firestore at: '' @ path"

text \<open>
  The success callback of \<open>onSnapshot\<close> (lines 70-83) for the subscription on \<open>path\<close>;
  \<open>docSnap.data()\<close> is \<open>None\<close> when the document does not exist.
\<close>

definition snapshot_next :: "SessionState \<Rightarrow> string \<Rightarrow> DocumentData option \<Rightarrow> SessionState" where
  "snapshot_next s path profileData =
     (case profileData of
        None \<Rightarrow> s\<lparr>authErrorMessages := Some [no_profile_msg path], profile := Undefined\<rparr>
      | Some d \<Rightarrow> s\<lparr>profile := Data d\<rparr>)"

definition firestore_hint :: string where
  "firestore_hint = ''Have you initialized your Firestore database?''"

text \<open>The error callback of \<open>onSnapshot\<close> (lines 84-93).\<close>

definition snapshot_error :: "SessionState \<Rightarrow> exn \<Rightarrow> SessionState" where
  "snapshot_error s firestoreErr =
     s\<lparr>authErrorMessages := Some [message firestoreErr, firestore_hint]\<rparr>"

section \<open>Operations\<close>

text \<open>
  What an operation does besides computing, in program order: the state setters it
  calls and the remote calls it invokes. The outcome of each remote call is a parameter
  of the operation: \<open>Inl\<close> the value thrown, \<open>Inr\<close> the value returned. The state an
  operation returns is the one React commits once the operation has returned, before
  the effects of that render.
\<close>

datatype remote_call =
    CreateUser string string
  | SetDoc string DocumentData
  | SignIn string string
  | SignOut

datatype action =
    SetUser "User option"
  | SetAuthErrorMessages "string list"
  | Invoke remote_call

definition email_provider_hint :: string where
  "email_provider_hint = ''Did you enable the Email Provider in Firebase Auth?''"

definition firestore_enable_hint :: string where
  "firestore_enable_hint = ''Did you enable the Firestore Database in your Firebase project?''"

text \<open>The object literal \<open>userDocData\<close> of \<open>registerFunction\<close> (lines 144-149).\<close>

definition userDocData :: "User \<Rightarrow> string \<Rightarrow> string \<Rightarrow> DocumentData" where
  "userDocData u em displayName =
     [(''uid'', Str (uid u)), (''email'', Str em), (''displayName'', Str displayName),
      (''dateCreated'', ServerTimestamp)]"

text \<open>
  \<open>registerFunction\<close> (lines 117-163). \<open>dn\<close> is the optional third argument, whose default
  is the empty string. \<open>doc()\<close> is called inside the second \<open>try\<close>: when it throws,
  \<open>docFault\<close> is the value it throws, the second \<open>catch\<close> handles it and \<open>setDoc\<close> is
  never invoked.
\<close>

definition registerFunction ::
  "SessionState \<Rightarrow> string \<Rightarrow> string \<Rightarrow> string option \<Rightarrow> exn \<Rightarrow> exn + User \<Rightarrow> exn + unit \<Rightarrow>
     bool \<times> SessionState \<times> action list" where
  "registerFunction s em password dn docFault created written =
     (let displayName = (case dn of None \<Rightarrow> [] | Some d \<Rightarrow> d) in
      case created of
        Inl ex \<Rightarrow>
          (False, s\<lparr>authErrorMessages := Some [message ex, email_provider_hint]\<rparr>,
           [Invoke (CreateUser em password),
            SetAuthErrorMessages [message ex, email_provider_hint]])
      | Inr u \<Rightarrow>
          (case doc ''users'' (uid u) of
             Inl err \<Rightarrow>
               (False, s\<lparr>authErrorMessages := Some [message docFault, firestore_enable_hint]\<rparr>,
                [Invoke (CreateUser em password),
                 SetAuthErrorMessages [message docFault, firestore_enable_hint]])
           | Inr path \<Rightarrow>
               (case written of
                  Inr done \<Rightarrow>
                    (True, s,
                     [Invoke (CreateUser em password),
                      Invoke (SetDoc path (userDocData u em displayName))])
                | Inl ex \<Rightarrow>
                    (False, s\<lparr>authErrorMessages := Some [message ex, firestore_enable_hint]\<rparr>,
                     [Invoke (CreateUser em password),
                      Invoke (SetDoc path (userDocData u em displayName)),
                      SetAuthErrorMessages [message ex, firestore_enable_hint]]))))"

text \<open>The message the catch blocks of login and logout compute (lines 184-186, 202-204).\<close>

definition caught_msg :: "exn \<Rightarrow> string" where
  "caught_msg ex = (if hasOwnMessage ex then message ex else json ex)"

text \<open>\<open>loginFunction\<close> (lines 165-193).\<close>

definition loginFunction ::
  "SessionState \<Rightarrow> string \<Rightarrow> string \<Rightarrow> exn + User \<Rightarrow> bool \<times> SessionState \<times> action list" where
  "loginFunction s em password signedIn =
     (case signedIn of
        Inr u \<Rightarrow>
          (True, s\<lparr>user := Some u\<rparr>, [Invoke (SignIn em password), SetUser (Some u)])
      | Inl ex \<Rightarrow>
          (False, s\<lparr>authErrorMessages := Some [caught_msg ex]\<rparr>,
           [Invoke (SignIn em password), SetAuthErrorMessages [caught_msg ex]]))"

text \<open>
  \<open>logoutFunction\<close> (lines 195-209). \<open>setUser(null)\<close> is queued and \<open>signOut\<close> invoked in
  the same turn. The source does not say whether React renders the cleared user, and
  runs the effect for it, before \<open>signOut\<close> settles: \<open>renderedFirst\<close> is the case that it
  does, and otherwise the continuation runs first and its updates are committed together
  with the cleared user.
\<close>

definition logoutFunction ::
  "SessionState \<Rightarrow> exn + unit \<Rightarrow> bool \<Rightarrow> bool \<times> SessionState \<times> action list" where
  "logoutFunction s signedOut renderedFirst =
     (let queued = s\<lparr>user := None\<rparr>;
          current = (if renderedFirst then flush_signed_out queued else queued) in
      case signedOut of
        Inr done \<Rightarrow> (True, current, [SetUser None, Invoke SignOut])
      | Inl ex \<Rightarrow>
          (False, current\<lparr>authErrorMessages := Some [caught_msg ex]\<rparr>,
           [SetUser None, Invoke SignOut, SetAuthErrorMessages [caught_msg ex]]))"

section \<open>Events of a session\<close>

text \<open>
  Everything that changes the state of a mounted \<open>AuthProvider\<close>: the two stream
  callbacks and the three operations, each with the outcome of its remote calls (and for
  logout the order of render and settlement). The provider is mounted under a ready
  \<open>FirebaseProvider\<close>, so \<open>myAuth\<close> is set and the identity subscription is open. A
  document callback is only invoked for an open subscription: with none open the event
  changes nothing.
\<close>

datatype event =
    AuthStateChanged "User option"
  | DocSnapshot "DocumentData option"
  | DocError exn
  | Login string string "exn + User"
  | Logout "exn + unit" bool
  | Register string string "string option" exn "exn + User" "exn + unit"

text \<open>
  The render React commits after the updates of an event, which the children see; the
  profile effect has not yet run for it.
\<close>

definition commit_event :: "SessionState \<Rightarrow> event \<Rightarrow> SessionState" where
  "commit_event s e =
     (case e of
        AuthStateChanged u \<Rightarrow> onAuthStateChanged_cb s u
      | DocSnapshot d \<Rightarrow>
          (case docSub s of None \<Rightarrow> s | Some path \<Rightarrow> snapshot_next s path d)
      | DocError ex \<Rightarrow>
          (case docSub s of None \<Rightarrow> s | Some path \<Rightarrow> snapshot_error s ex)
      | Login em pw r \<Rightarrow> fst (snd (loginFunction s em pw r))
      | Logout r renderedFirst \<Rightarrow> fst (snd (logoutFunction s r renderedFirst))
      | Register em pw dn docFault r w \<Rightarrow> fst (snd (registerFunction s em pw dn docFault r w)))"

text \<open>
  A step: the committed render, then the effects. \<open>None\<close>: the effect threw and the
  provider is unmounted.
\<close>

definition step :: "SessionState \<Rightarrow> event \<Rightarrow> SessionState option" where
  "step s e = flush_effects (commit_event s e)"

fun run :: "SessionState \<Rightarrow> event list \<Rightarrow> SessionState option" where
  "run s [] = Some s"
| "run s (e # es) = (case step s e of None \<Rightarrow> None | Some s' \<Rightarrow> run s' es)"

text \<open>The events of the two streams, as opposed to the calls of the consuming UI.\<close>

fun is_stream_event :: "event \<Rightarrow> bool" where
  "is_stream_event (AuthStateChanged u) = True"
| "is_stream_event (DocSnapshot d) = True"
| "is_stream_event (DocError ex) = True"
| "is_stream_event (Login em pw r) = False"
| "is_stream_event (Logout r b) = False"
| "is_stream_event (Register em pw dn f r w) = False"

text \<open>Events whose identities, if any, have ids of one path segment.\<close>

fun issued_event :: "event \<Rightarrow> bool" where
  "issued_event (AuthStateChanged (Some u)) = single_segment (uid u)"
| "issued_event (Login em pw (Inr u)) = single_segment (uid u)"
| "issued_event (AuthStateChanged None) = True"
| "issued_event (Login em pw (Inl ex)) = True"
| "issued_event (DocSnapshot d) = True"
| "issued_event (DocError ex) = True"
| "issued_event (Logout r b) = True"
| "issued_event (Register em pw dn f r w) = True"

text \<open>
  The session settles when the open subscription delivers the snapshot of its document
  as the store holds it.
\<close>

definition settle :: "(string \<Rightarrow> DocumentData option) \<Rightarrow> SessionState \<Rightarrow> SessionState" where
  "settle store s =
     (case docSub s of None \<Rightarrow> s | Some path \<Rightarrow> snapshot_next s path (store path))"

text \<open>
  What a finished effect leaves behind: it has run for the current user, and the open
  subscription is the one of that user's \<open>uid\<close>, if that is truthy.
\<close>

definition expected_sub :: "User option \<Rightarrow> string option" where
  "expected_sub uo =
     (case uo of
        None \<Rightarrow> None
      | Some u \<Rightarrow>
          if uid u \<noteq> [] then
            (case doc PROFILE_COLLECTION (uid u) of Inl err \<Rightarrow> None | Inr path \<Rightarrow> Some path)
          else None)"

definition effects_done :: "SessionState \<Rightarrow> bool" where
  "effects_done s = (effectUser s = user s \<and> docSub s = expected_sub (user s))"

definition profile_needs_user :: "SessionState \<Rightarrow> bool" where
  "profile_needs_user s = (if is_document (profile s) then user s \<noteq> None else True)"

text \<open>
  While nobody is signed in and only the streams have spoken, the profile is \<open>null\<close>
  and no error list is set.
\<close>

definition idle_clean :: "SessionState \<Rightarrow> bool" where
  "idle_clean s =
     (case user s of
        None \<Rightarrow> profile s = Null \<and> authErrorMessages s = None
      | Some u \<Rightarrow> True)"

section \<open>The session hook (lines 33-35 and 247-257)\<close>

text \<open>
  What a context can hold: \<open>undefined\<close>, the empty object literal, or the object
  \<open>theValues\<close> that \<open>AuthProvider\<close> builds (its three functions are left out).
\<close>

record AuthContextValues =
  ctxErrorMessages :: "string list option"
  ctxLoading :: bool
  ctxProfile :: profile_value
  ctxUser :: "User option"

datatype context_value = JSUndefined | EmptyObject | Values AuthContextValues

datatype js_error = Error string

text \<open>\<open>createContext<AuthContextValues>({} as AuthContextValues)\<close>: the default value.\<close>

definition AuthContext_default :: context_value where
  "AuthContext_default = EmptyObject"

text \<open>
  React's \<open>useContext\<close>: the value of the nearest provider above the caller, or the
  default given to \<open>createContext\<close> when there is none.
\<close>

definition useContext :: "context_value \<Rightarrow> context_value option \<Rightarrow> context_value" where
  "useContext dflt provided = (case provided of None \<Rightarrow> dflt | Some v \<Rightarrow> v)"

definition useAuthContext :: "context_value option \<Rightarrow> js_error + context_value" where
  "useAuthContext provided =
     (let context = useContext AuthContext_default provided in
      if context = JSUndefined
      then Inl (Error ''useAuthContext was used outside of its Provider'')
      else Inr context)"

text \<open>
  What \<open>AuthProvider\<close> renders (lines 211-227): nothing while loading, otherwise its
  children under a provider of \<open>theValues\<close>.
\<close>

definition theValues :: "SessionState \<Rightarrow> AuthContextValues" where
  "theValues s =
     \<lparr>ctxErrorMessages = authErrorMessages s, ctxLoading = authLoading s,
      ctxProfile = profile s, ctxUser = user s\<rparr>"

definition AuthProvider :: "SessionState \<Rightarrow> context_value option" where
  "AuthProvider s = (if authLoading s then None else Some (Values (theValues s)))"

section \<open>The client provider (src/unnamed/part_000)\<close>

text \<open>
  Of the configuration only \<open>projectId\<close> is modelled; it is \<open>None\<close> when the JSON file
  has no such field. The other fields are taken to be what the client needs.
\<close>

record FirebaseConfig =
  projectId :: "string option"

text \<open>
  Lines 8-12 run when the module is loaded, before the component exists.
  \<open>initializeApp\<close> keeps the options; \<open>getFirestore\<close> throws when the options have no
  \<open>projectId\<close> field (\<open>fault\<close> is the value it throws); \<open>getAuth\<close> does not read it.
\<close>

record FirebaseApp =
  appOptions :: FirebaseConfig

record Firestore =
  fsApp :: FirebaseApp

record Auth =
  authApp :: FirebaseApp














section \<open>Document references of one segment\<close>

text \<open>
  For an id of one path segment \<open>doc()\<close> accepts the path and the reference is
  \<open>users/<id>\<close>.
\<close>

lemma split_slash_no_slash: "CHR ''/'' \<notin> set p \<Longrightarrow> split_slash p = [p]"
  by (induction p) auto

lemma no_double_slash: "CHR ''/'' \<notin> set p \<Longrightarrow> \<not> has_double_slash p"
  by (induction p rule: has_double_slash.induct) auto

lemma segments_single: "single_segment ident \<Longrightarrow> segments ident = [ident]"
  by (simp add: single_segment_def segments_def split_slash_no_slash)

lemma doc_single_segment:
  assumes "single_segment ident"
  shows "doc ''users'' ident = Inr (''users/'' @ ident)"
proof -
  have a: "segments ''users'' = [''users'']"
    by (simp add: segments_def)
  have b: "\<not> has_double_slash ''users''"
    by simp
  have c: "\<not> has_double_slash ident"
    using assms by (simp add: single_segment_def no_double_slash)
  show ?thesis
    using a b c segments_single [OF assms] by (simp add: doc_def)
qed

section \<open>Invariants of the transitions\<close>

text \<open>
  An effect run keeps the stored user; after it the effect has run for that user and the
  open subscription is the one of that user. With no user the effect cannot throw, which
  is what \<open>flush_signed_out\<close> relies on.
\<close>

lemma flush_effects_user: "flush_effects c = Some s' \<Longrightarrow> user s' = user c"
  by (auto simp: flush_effects_def profile_effect_def signed_out_effect_def
      split: if_splits option.splits sum.splits)

lemma flush_effects_done:
  assumes "user c = effectUser c \<Longrightarrow> docSub c = expected_sub (user c)"
    and "flush_effects c = Some s'"
  shows "effects_done s'"
  using assms
  by (auto simp: flush_effects_def profile_effect_def signed_out_effect_def effects_done_def
      expected_sub_def split: if_splits option.splits sum.splits)

lemma flush_effects_signed_out:
  "user c = None \<Longrightarrow> flush_effects c = Some (flush_signed_out c)"
  by (auto simp: flush_effects_def flush_signed_out_def profile_effect_def)

lemma commit_event_sub:
  assumes "effects_done s" and "user (commit_event s e) = effectUser (commit_event s e)"
  shows "docSub (commit_event s e) = expected_sub (user (commit_event s e))"
proof (cases e)
  case (AuthStateChanged u)
  with assms show ?thesis
    by (auto simp: commit_event_def onAuthStateChanged_cb_def effects_done_def)
next
  case (DocSnapshot d)
  with assms show ?thesis
    by (auto simp: commit_event_def snapshot_next_def effects_done_def split: option.splits)
next
  case (DocError ex)
  with assms show ?thesis
    by (auto simp: commit_event_def snapshot_error_def effects_done_def split: option.splits)
next
  case (Login em pw r)
  with assms show ?thesis
    by (cases r) (auto simp: commit_event_def loginFunction_def effects_done_def)
next
  case (Logout r b)
  with assms show ?thesis
    by (cases r; cases b)
      (auto simp: commit_event_def logoutFunction_def flush_signed_out_def
        signed_out_effect_def effects_done_def expected_sub_def Let_def split: if_splits)
next
  case (Register em pw dn f r w)
  with assms show ?thesis
    by (auto simp: commit_event_def registerFunction_def effects_done_def Let_def
        split: sum.splits)
qed

lemma effects_done_step: "effects_done s \<Longrightarrow> step s e = Some s' \<Longrightarrow> effects_done s'"
  unfolding step_def by (rule flush_effects_done) (simp_all add: commit_event_sub)

lemma effects_done_run: "effects_done s \<Longrightarrow> run s es = Some s' \<Longrightarrow> effects_done s'"
  by (induction es arbitrary: s) (auto split: option.splits dest: effects_done_step)

lemma effects_done_initial: "effects_done initialState"
  by (simp add: effects_done_def initialState_def expected_sub_def)

lemma run_snoc: "run s (es @ [e]) = (case run s es of None \<Rightarrow> None | Some s' \<Rightarrow> step s' e)"
  by (induction es arbitrary: s) (auto split: option.splits)

lemma profile_needs_user_step:
  assumes "effects_done s" and "profile_needs_user s" and "step s e = Some s'"
  shows "profile_needs_user s'"
proof (cases e)
  case (AuthStateChanged u)
  with assms show ?thesis
    by (auto simp: step_def commit_event_def flush_effects_def profile_effect_def
        signed_out_effect_def onAuthStateChanged_cb_def profile_needs_user_def
        effects_done_def split: option.splits if_splits sum.splits)
next
  case (DocSnapshot d)
  with assms show ?thesis
    by (auto simp: step_def commit_event_def flush_effects_def profile_effect_def
        signed_out_effect_def snapshot_next_def profile_needs_user_def
        effects_done_def expected_sub_def split: option.splits if_splits sum.splits)
next
  case (DocError ex)
  with assms show ?thesis
    by (auto simp: step_def commit_event_def flush_effects_def profile_effect_def
        signed_out_effect_def snapshot_error_def profile_needs_user_def
        effects_done_def split: option.splits if_splits sum.splits)
next
  case (Login em pw r)
  with assms show ?thesis
    by (cases r) (auto simp: step_def commit_event_def flush_effects_def profile_effect_def
        signed_out_effect_def loginFunction_def profile_needs_user_def
        effects_done_def split: option.splits if_splits sum.splits)
next
  case (Logout r b)
  with assms show ?thesis
    by (cases r; cases b)
      (auto simp: step_def commit_event_def flush_effects_def profile_effect_def
        signed_out_effect_def logoutFunction_def flush_signed_out_def profile_needs_user_def
        effects_done_def Let_def split: option.splits if_splits sum.splits)
next
  case (Register em pw dn f r w)
  with assms show ?thesis
    by (auto simp: step_def commit_event_def flush_effects_def profile_effect_def
        signed_out_effect_def registerFunction_def profile_needs_user_def
        effects_done_def Let_def split: option.splits if_splits sum.splits)
qed

lemma profile_needs_user_run:
  "effects_done s \<Longrightarrow> profile_needs_user s \<Longrightarrow> run s es = Some s' \<Longrightarrow> profile_needs_user s'"
proof (induction es arbitrary: s)
  case Nil
  then show ?case by simp
next
  case (Cons e es)
  then obtain m where m: "step s e = Some m" "run m es = Some s'"
    by (auto split: option.splits)
  from Cons.prems m have "effects_done m" "profile_needs_user m"
    by (auto dest: effects_done_step profile_needs_user_step)
  with Cons.IH m show ?case by blast
qed

lemma idle_clean_step:
  assumes "effects_done s" and "idle_clean s" and "is_stream_event e" and "step s e = Some s'"
  shows "idle_clean s'"
  using assms
  by (cases e)
    (auto simp: step_def commit_event_def flush_effects_def profile_effect_def
      signed_out_effect_def onAuthStateChanged_cb_def snapshot_next_def snapshot_error_def
      idle_clean_def effects_done_def expected_sub_def
      split: option.splits if_splits sum.splits)

lemma idle_clean_run:
  "effects_done s \<Longrightarrow> idle_clean s \<Longrightarrow> list_all is_stream_event es \<Longrightarrow> run s es = Some s' \<Longrightarrow>
   idle_clean s'"
proof (induction es arbitrary: s)
  case Nil
  then show ?case by simp
next
  case (Cons e es)
  then obtain m where m: "step s e = Some m" "run m es = Some s'"
    by (auto split: option.splits)
  from Cons.prems m have "effects_done m" "idle_clean m"
    by (auto dest: effects_done_step idle_clean_step)
  with Cons.IH Cons.prems m show ?case by simp
qed

lemma idle_clean_initial: "idle_clean initialState"
  by (simp add: idle_clean_def initialState_def)

text \<open>
  Events whose identities have ids of one path segment never unmount the provider, and
  the delivery of such an identity leaves its subscription open.
\<close>

lemma issued_step:
  assumes "effects_done s" and "issued_event e"
  shows "step s e \<noteq> None"
proof (cases e)
  case (AuthStateChanged u)
  with assms show ?thesis
    by (cases u) (auto simp: step_def commit_event_def flush_effects_def profile_effect_def
        onAuthStateChanged_cb_def PROFILE_COLLECTION_def doc_single_segment)
next
  case (DocSnapshot d)
  with assms show ?thesis
    by (auto simp: step_def commit_event_def flush_effects_def snapshot_next_def
        effects_done_def split: option.splits)
next
  case (DocError ex)
  with assms show ?thesis
    by (auto simp: step_def commit_event_def flush_effects_def snapshot_error_def
        effects_done_def split: option.splits)
next
  case (Login em pw r)
  with assms show ?thesis
    by (cases r) (auto simp: step_def commit_event_def flush_effects_def profile_effect_def
        loginFunction_def PROFILE_COLLECTION_def doc_single_segment effects_done_def)
next
  case (Logout r b)
  then have "user (commit_event s e) = None"
    by (cases r; cases b)
      (auto simp: commit_event_def logoutFunction_def flush_signed_out_def
        signed_out_effect_def Let_def)
  then show ?thesis
    by (simp add: step_def flush_effects_signed_out)
next
  case (Register em pw dn f r w)
  with assms show ?thesis
    by (auto simp: step_def commit_event_def flush_effects_def registerFunction_def
        effects_done_def Let_def split: sum.splits)
qed

lemma issued_run:
  "effects_done s \<Longrightarrow> list_all issued_event es \<Longrightarrow> run s es \<noteq> None"
proof (induction es arbitrary: s)
  case Nil
  then show ?case by simp
next
  case (Cons e es)
  then obtain m where m: "step s e = Some m"
    using issued_step [of s e] by auto
  with Cons.prems have "effects_done m"
    by (auto dest: effects_done_step)
  with Cons.IH Cons.prems m show ?case by simp
qed

lemma step_identity:
  assumes "effects_done s" and "single_segment (uid u)"
  shows "\<exists>s2. step s (AuthStateChanged (Some u)) = Some s2 \<and> user s2 = Some u
           \<and> docSub s2 = Some (''users/'' @ uid u) \<and> \<not> authLoading s2
           \<and> authErrorMessages s2 = authErrorMessages s"
proof (cases "user s = Some u")
  case True
  with assms have "docSub s = Some (''users/'' @ uid u)" "effectUser s = Some u"
    by (simp_all add: effects_done_def expected_sub_def PROFILE_COLLECTION_def
        doc_single_segment single_segment_def)
  then show ?thesis
    by (simp add: step_def commit_event_def flush_effects_def onAuthStateChanged_cb_def)
next
  case False
  with assms have "effectUser s \<noteq> Some u"
    by (simp add: effects_done_def)
  with assms show ?thesis
    by (auto simp: step_def commit_event_def flush_effects_def profile_effect_def
        onAuthStateChanged_cb_def PROFILE_COLLECTION_def doc_single_segment
        single_segment_def)
qed

section \<open>Error recording\<close>

text \<open>
  C1, as the code has it. Every handler of a failure calls \<open>setAuthErrorMessages\<close> with a
  new array, whatever the list held before: after a failed login or logout (in either
  order of render and rejection) the list is exactly the caught message, after either
  failing phase of register and after a subscription error it is the message followed by
  the hint of that handler, and after a snapshot of a missing document it is the
  \<open>No profile doc found\<close> message with the path. Nothing is appended. Once the effects of
  a failed logout have run, the list still holds the message when React rendered the
  cleared user before the rejection or no user was stored; when the rejection came first
  and a user was stored, the effect that follows has cleared it.
\<close>

theorem failure_replaces_error_list:
  "authErrorMessages (fst (snd (loginFunction s em pw (Inl ex))))
     = Some [if hasOwnMessage ex then message ex else json ex]
   \<and> authErrorMessages (fst (snd (logoutFunction s (Inl ex) b)))
     = Some [if hasOwnMessage ex then message ex else json ex]
   \<and> authErrorMessages (fst (snd (registerFunction s em pw dn f (Inl ex) w)))
     = Some [message ex, ''Did you enable the Email Provider in Firebase Auth?'']
   \<and> authErrorMessages (fst (snd (registerFunction s em pw dn f (Inr u) (Inl ex))))
     = Some [message (case doc ''users'' (uid u) of Inl err \<Rightarrow> f | Inr path \<Rightarrow> ex),
             ''Did you enable the Firestore Database in your Firebase project?'']
   \<and> authErrorMessages (snapshot_error s ex)
     = Some [message ex, ''Have you initialized your Firestore database?'']
   \<and> authErrorMessages (snapshot_next s path None)
     = Some [''No profile doc found in Firestore at: '' @ path]
   \<and> map_option authErrorMessages (step s (Logout (Inl ex) True))
     = Some (Some [if hasOwnMessage ex then message ex else json ex])
   \<and> map_option authErrorMessages (step s (Logout (Inl ex) False))
     = Some (if effectUser s = None
             then Some [if hasOwnMessage ex then message ex else json ex] else None)"
proof -
  have login: "authErrorMessages (fst (snd (loginFunction s em pw (Inl ex))))
     = Some [if hasOwnMessage ex then message ex else json ex]"
    by (simp add: loginFunction_def caught_msg_def)
  have logout: "authErrorMessages (fst (snd (logoutFunction s (Inl ex) b)))
     = Some [if hasOwnMessage ex then message ex else json ex]"
    by (simp add: logoutFunction_def caught_msg_def Let_def)
  have reg1: "authErrorMessages (fst (snd (registerFunction s em pw dn f (Inl ex) w)))
     = Some [message ex, ''Did you enable the Email Provider in Firebase Auth?'']"
    by (simp add: registerFunction_def email_provider_hint_def)
  have reg2: "authErrorMessages (fst (snd (registerFunction s em pw dn f (Inr u) (Inl ex))))
     = Some [message (case doc ''users'' (uid u) of Inl err \<Rightarrow> f | Inr path \<Rightarrow> ex),
             ''Did you enable the Firestore Database in your Firebase project?'']"
    by (simp add: registerFunction_def firestore_enable_hint_def split: sum.splits)
  have sub: "authErrorMessages (snapshot_error s ex)
     = Some [message ex, ''Have you initialized your Firestore database?'']"
    by (simp add: snapshot_error_def firestore_hint_def)
  have missing: "authErrorMessages (snapshot_next s path None)
     = Some [''No profile doc found in Firestore at: '' @ path]"
    by (simp add: snapshot_next_def no_profile_msg_def)
  have rendered: "map_option authErrorMessages (step s (Logout (Inl ex) True))
     = Some (Some [if hasOwnMessage ex then message ex else json ex])"
    by (simp add: step_def commit_event_def logoutFunction_def flush_signed_out_def
        signed_out_effect_def flush_effects_def caught_msg_def Let_def)
  have unrendered: "map_option authErrorMessages (step s (Logout (Inl ex) False))
     = Some (if effectUser s = None
             then Some [if hasOwnMessage ex then message ex else json ex] else None)"
    by (simp add: step_def commit_event_def logoutFunction_def flush_effects_def
        profile_effect_def signed_out_effect_def caught_msg_def Let_def)
  from login logout reg1 reg2 sub missing rendered unrendered show ?thesis
    by blast
qed

text \<open>
  Two failed logins in a row from the mounted state: the list holds the second message
  only, so the first one was not preserved.
\<close>

theorem error_list_append_counterexample:
  "map_option errorMessages (run initialState
      [Login ''a@x.com'' ''bad'' (Inl \<lparr>message = ''first'', hasOwnMessage = True, json = ''{}''\<rparr>)])
     = Some [''first'']
   \<and> map_option errorMessages (run initialState
      [Login ''a@x.com'' ''bad'' (Inl \<lparr>message = ''first'', hasOwnMessage = True, json = ''{}''\<rparr>),
       Login ''a@x.com'' ''bad'' (Inl \<lparr>message = ''second'', hasOwnMessage = True, json = ''{}''\<rparr>)])
     = Some [''second'']
   \<and> map_option errorMessages (run initialState
      [Login ''a@x.com'' ''bad'' (Inl \<lparr>message = ''first'', hasOwnMessage = True, json = ''{}''\<rparr>),
       Login ''a@x.com'' ''bad'' (Inl \<lparr>message = ''second'', hasOwnMessage = True, json = ''{}''\<rparr>)])
     \<noteq> Some [''first'', ''second'']"
  by (simp add: step_def commit_event_def flush_effects_def initialState_def
      loginFunction_def caught_msg_def errorMessages_def)

text \<open>
  C10. When the error callback of the profile-document subscription fires, the error list
  becomes the failure message followed by the provisioning hint, and the identity, the
  profile document and the loading flag keep their values; the subscription stays open.
\<close>

theorem snapshot_error_frame:
  "authErrorMessages (snapshot_error s err) = Some [message err, firestore_hint]
   \<and> user (snapshot_error s err) = user s
   \<and> profile (snapshot_error s err) = profile s
   \<and> authLoading (snapshot_error s err) = authLoading s
   \<and> docSub (snapshot_error s err) = docSub s"
  by (simp add: snapshot_error_def)

section \<open>The session hook outside a provider\<close>

text \<open>
  C2. Called with no \<open>AuthProvider\<close> above it, the hook gets the default of the context,
  the empty object, which is not \<open>undefined\<close>: it returns that object and raises nothing.
\<close>

theorem useAuthContext_outside_provider:
  "useAuthContext None = Inr EmptyObject"
  by (simp add: useAuthContext_def useContext_def AuthContext_default_def)

section \<open>The three operations\<close>

text \<open>
  C3. \<open>register\<close> is two-phase, for every identity the service creates (an id of one
  path segment). When creating the identity fails, it records the message with the
  identity-provider hint, returns false, and the only remote call invoked is the
  creation. When creation succeeds it then invokes the write, at \<open>users/<new id>\<close>, of
  the fields \<open>uid\<close>, \<open>email\<close>, \<open>displayName\<close> (the empty string when the argument is
  absent) and \<open>dateCreated\<close> (the server timestamp), and returns true when the write
  succeeds. When the write fails it records the message with the document-store hint and
  returns false; the creation has been invoked and nothing undoes it, and once the
  identity stream of a mounted provider delivers the new identity and its document is
  found missing, the session holds that identity with no profile.
\<close>

theorem register_two_phase:
  assumes "single_segment (uid u)"
  shows "registerFunction s em pw dn f (Inl ex) w
     = (False,
        s\<lparr>authErrorMessages :=
            Some [message ex, ''Did you enable the Email Provider in Firebase Auth?'']\<rparr>,
        [Invoke (CreateUser em pw),
         SetAuthErrorMessages
           [message ex, ''Did you enable the Email Provider in Firebase Auth?'']])
   \<and> registerFunction s em pw dn f (Inr u) (Inr ok)
     = (True, s,
        [Invoke (CreateUser em pw),
         Invoke (SetDoc (''users/'' @ uid u)
           [(''uid'', Str (uid u)), (''email'', Str em),
            (''displayName'', Str (case dn of None \<Rightarrow> [] | Some d \<Rightarrow> d)),
            (''dateCreated'', ServerTimestamp)])])
   \<and> registerFunction s em pw dn f (Inr u) (Inl ex)
     = (False,
        s\<lparr>authErrorMessages :=
            Some [message ex,
                  ''Did you enable the Firestore Database in your Firebase project?'']\<rparr>,
        [Invoke (CreateUser em pw),
         Invoke (SetDoc (''users/'' @ uid u)
           [(''uid'', Str (uid u)), (''email'', Str em),
            (''displayName'', Str (case dn of None \<Rightarrow> [] | Some d \<Rightarrow> d)),
            (''dateCreated'', ServerTimestamp)]),
         SetAuthErrorMessages
           [message ex, ''Did you enable the Firestore Database in your Firebase project?'']])
   \<and> (run initialState es = Some s0 \<and> store (''users/'' @ uid u) = None \<longrightarrow>
        map_option (\<lambda>s'. (user (settle store s'), profile (settle store s')))
          (step (fst (snd (registerFunction s0 em pw dn f (Inr u) (Inl ex))))
             (AuthStateChanged (Some u)))
        = Some (Some u, Undefined))"
proof -
  note d = doc_single_segment [OF assms]
  have a: "registerFunction s em pw dn f (Inl ex) w
     = (False,
        s\<lparr>authErrorMessages :=
            Some [message ex, ''Did you enable the Email Provider in Firebase Auth?'']\<rparr>,
        [Invoke (CreateUser em pw),
         SetAuthErrorMessages
           [message ex, ''Did you enable the Email Provider in Firebase Auth?'']])"
    by (simp add: registerFunction_def email_provider_hint_def)
  have b: "registerFunction s em pw dn f (Inr u) (Inr ok)
     = (True, s,
        [Invoke (CreateUser em pw),
         Invoke (SetDoc (''users/'' @ uid u)
           [(''uid'', Str (uid u)), (''email'', Str em),
            (''displayName'', Str (case dn of None \<Rightarrow> [] | Some d \<Rightarrow> d)),
            (''dateCreated'', ServerTimestamp)])])"
    using d by (simp add: registerFunction_def userDocData_def)
  have c: "registerFunction s' em pw dn f (Inr u) (Inl ex)
     = (False,
        s'\<lparr>authErrorMessages :=
            Some [message ex,
                  ''Did you enable the Firestore Database in your Firebase project?'']\<rparr>,
        [Invoke (CreateUser em pw),
         Invoke (SetDoc (''users/'' @ uid u)
           [(''uid'', Str (uid u)), (''email'', Str em),
            (''displayName'', Str (case dn of None \<Rightarrow> [] | Some d \<Rightarrow> d)),
            (''dateCreated'', ServerTimestamp)]),
         SetAuthErrorMessages
           [message ex, ''Did you enable the Firestore Database in your Firebase project?'']])"
    for s'
    using d by (simp add: registerFunction_def userDocData_def firestore_enable_hint_def)
  have r: "map_option (\<lambda>s'. (user (settle store s'), profile (settle store s')))
          (step (fst (snd (registerFunction s0 em pw dn f (Inr u) (Inl ex))))
             (AuthStateChanged (Some u)))
        = Some (Some u, Undefined)"
    if h: "run initialState es = Some s0" "store (''users/'' @ uid u) = None"
  proof -
    define s1 where "s1 = fst (snd (registerFunction s0 em pw dn f (Inr u) (Inl ex)))"
    have "effects_done s0"
      using h(1) effects_done_initial by (rule effects_done_run [rotated])
    then have "effects_done s1"
      by (simp add: s1_def c effects_done_def)
    from step_identity [OF this assms] obtain s2 where
      s2: "step s1 (AuthStateChanged (Some u)) = Some s2" "user s2 = Some u"
        "docSub s2 = Some (''users/'' @ uid u)"
      by blast
    then show ?thesis
      using h(2) by (simp add: s1_def [symmetric] settle_def snapshot_next_def)
  qed
  from a b c [of s] r show ?thesis by blast
qed

theorem register_two_phase_witness:
  "single_segment (uid \<lparr>oid = 2, uid = ''u2'', email = Some ''b@x.com''\<rparr>)
   \<and> run initialState [] = Some initialState
   \<and> fst (registerFunction initialState ''b@x.com'' ''pw'' (Some ''Bob'')
        \<lparr>message = ''bad path'', hasOwnMessage = True, json = ''{}''\<rparr>
        (Inr \<lparr>oid = 2, uid = ''u2'', email = Some ''b@x.com''\<rparr>)
        (Inl \<lparr>message = ''write failed'', hasOwnMessage = True, json = ''{}''\<rparr>)) = False
   \<and> map_option (\<lambda>s'. (user (settle (\<lambda>p. None) s'), profile (settle (\<lambda>p. None) s')))
        (step (fst (snd (registerFunction initialState ''b@x.com'' ''pw'' (Some ''Bob'')
           \<lparr>message = ''bad path'', hasOwnMessage = True, json = ''{}''\<rparr>
           (Inr \<lparr>oid = 2, uid = ''u2'', email = Some ''b@x.com''\<rparr>)
           (Inl \<lparr>message = ''write failed'', hasOwnMessage = True, json = ''{}''\<rparr>))))
         (AuthStateChanged (Some \<lparr>oid = 2, uid = ''u2'', email = Some ''b@x.com''\<rparr>)))
      = Some (Some \<lparr>oid = 2, uid = ''u2'', email = Some ''b@x.com''\<rparr>, Undefined)"
proof -
  have h: "single_segment (uid \<lparr>oid = 2, uid = ''u2'', email = Some ''b@x.com''\<rparr>)"
    by (simp add: single_segment_def)
  have e: "run initialState [] = Some initialState"
    by simp
  note t = register_two_phase [OF h, of initialState "''b@x.com''" "''pw''" "Some ''Bob''"
        "\<lparr>message = ''bad path'', hasOwnMessage = True, json = ''{}''\<rparr>"
        "\<lparr>message = ''write failed'', hasOwnMessage = True, json = ''{}''\<rparr>" "Inr ()"
        "()" "[]" initialState "\<lambda>p. None"]
  from t have r: "fst (registerFunction initialState ''b@x.com'' ''pw'' (Some ''Bob'')
        \<lparr>message = ''bad path'', hasOwnMessage = True, json = ''{}''\<rparr>
        (Inr \<lparr>oid = 2, uid = ''u2'', email = Some ''b@x.com''\<rparr>)
        (Inl \<lparr>message = ''write failed'', hasOwnMessage = True, json = ''{}''\<rparr>)) = False"
    by simp
  from t h e r show ?thesis by blast
qed

text \<open>
  With the empty id \<open>doc()\<close> throws inside the second \<open>try\<close>: the thrown message is
  recorded with the document-store hint, false is returned and no write is invoked.
\<close>

lemma register_doc_rejected:
  "registerFunction s em pw dn f (Inr \<lparr>oid = n, uid = [], email = m\<rparr>) w
     = (False,
        s\<lparr>authErrorMessages :=
            Some [message f,
                  ''Did you enable the Firestore Database in your Firebase project?'']\<rparr>,
        [Invoke (CreateUser em pw),
         SetAuthErrorMessages
           [message f, ''Did you enable the Firestore Database in your Firebase project?'']])"
  by (simp add: registerFunction_def doc_def segments_def firestore_enable_hint_def)

text \<open>
  C4. \<open>login\<close>: when the sign-in succeeds, \<open>setUser\<close> is called with the returned
  identity before login returns true, and that identity is the stored user of the state
  then committed; when it fails, the recorded list is the one message of the error (its
  own \<open>message\<close>, or its JSON text when it has none), login returns false, and the state
  is otherwise as before, the stored identity included.
\<close>

theorem login_stores_identity:
  "loginFunction s em pw (Inr u)
     = (True, s\<lparr>user := Some u\<rparr>, [Invoke (SignIn em pw), SetUser (Some u)])
   \<and> user (fst (snd (loginFunction s em pw (Inr u)))) = Some u
   \<and> loginFunction s em pw (Inl ex)
     = (False,
        s\<lparr>authErrorMessages := Some [if hasOwnMessage ex then message ex else json ex]\<rparr>,
        [Invoke (SignIn em pw),
         SetAuthErrorMessages [if hasOwnMessage ex then message ex else json ex]])
   \<and> user (fst (snd (loginFunction s em pw (Inl ex)))) = user s"
  by (simp add: loginFunction_def caught_msg_def)

text \<open>
  C5. \<open>logout\<close>, from any state (signed in or not) and in either order of render and
  settlement: \<open>setUser(null)\<close> is called before \<open>signOut\<close> is invoked, which is the one
  remote call; logout returns true when the sign-out succeeds, and on failure sets the
  error list to the caught message and returns false; the stored identity is \<open>None\<close> in
  the state committed when logout returns, and still after the effects of that render.
\<close>

theorem logout_clears_identity:
  "fst (logoutFunction s (Inr ok) b) = True
   \<and> fst (logoutFunction s (Inl ex) b) = False
   \<and> snd (snd (logoutFunction s (Inr ok) b)) = [SetUser None, Invoke SignOut]
   \<and> snd (snd (logoutFunction s (Inl ex) b))
     = [SetUser None, Invoke SignOut,
        SetAuthErrorMessages [if hasOwnMessage ex then message ex else json ex]]
   \<and> authErrorMessages (fst (snd (logoutFunction s (Inl ex) b)))
     = Some [if hasOwnMessage ex then message ex else json ex]
   \<and> user (fst (snd (logoutFunction s r b))) = None
   \<and> fst (snd (logoutFunction s (Inr ok) False)) = s\<lparr>user := None\<rparr>
   \<and> fst (snd (logoutFunction s (Inr ok) True))
     = (if effectUser s = None then s\<lparr>user := None\<rparr>
        else s\<lparr>user := None, docSub := None, effectUser := None, authLoading := True,
               profile := Null, authErrorMessages := None\<rparr>)
   \<and> map_option user (step s (Logout r b)) = Some None"
proof -
  have u: "user (fst (snd (logoutFunction s r b))) = None"
    by (cases r; cases b)
      (simp_all add: logoutFunction_def flush_signed_out_def signed_out_effect_def Let_def)
  then have "flush_effects (fst (snd (logoutFunction s r b)))
      = Some (flush_signed_out (fst (snd (logoutFunction s r b))))"
    by (rule flush_effects_signed_out)
  then have st: "map_option user (step s (Logout r b)) = Some None"
    using u by (simp add: step_def commit_event_def flush_signed_out_def signed_out_effect_def)
  have rest: "fst (logoutFunction s (Inr ok) b) = True
   \<and> fst (logoutFunction s (Inl ex) b) = False
   \<and> snd (snd (logoutFunction s (Inr ok) b)) = [SetUser None, Invoke SignOut]
   \<and> snd (snd (logoutFunction s (Inl ex) b))
     = [SetUser None, Invoke SignOut,
        SetAuthErrorMessages [if hasOwnMessage ex then message ex else json ex]]
   \<and> authErrorMessages (fst (snd (logoutFunction s (Inl ex) b)))
     = Some [if hasOwnMessage ex then message ex else json ex]
   \<and> fst (snd (logoutFunction s (Inr ok) False)) = s\<lparr>user := None\<rparr>
   \<and> fst (snd (logoutFunction s (Inr ok) True))
     = (if effectUser s = None then s\<lparr>user := None\<rparr>
        else s\<lparr>user := None, docSub := None, effectUser := None, authLoading := True,
               profile := Null, authErrorMessages := None\<rparr>)"
    by (simp add: logoutFunction_def flush_signed_out_def signed_out_effect_def
        caught_msg_def Let_def)
  from u st rest show ?thesis by blast
qed

section \<open>Sequences of stream events\<close>

text \<open>
  C6, as the code has it. After any sequence of stream events (identity events, with the
  callbacks of the document subscription among them) that leaves the provider mounted,
  as every sequence of identities with ids of one path segment does, and then the
  identity stream delivering none: the profile is none and the error list is empty; the
  loading flag is true exactly when an identity was stored just before that last event,
  and false when none was stored (as at the first event after mount).
\<close>

theorem identity_none_resets_session:
  assumes "list_all is_stream_event es" and "run initialState es = Some s"
  shows "map_option profile (run initialState (es @ [AuthStateChanged None])) = Some Null
    \<and> map_option errorMessages (run initialState (es @ [AuthStateChanged None])) = Some []
    \<and> map_option authLoading (run initialState (es @ [AuthStateChanged None]))
        = Some (user s \<noteq> None)"
proof -
  have ed: "effects_done s"
    using assms(2) effects_done_initial by (rule effects_done_run [rotated])
  have ic: "idle_clean s"
    using effects_done_initial idle_clean_initial assms by (rule idle_clean_run)
  show ?thesis
  proof (cases "user s")
    case None
    with ic ed assms(2) show ?thesis
      by (simp add: run_snoc step_def commit_event_def flush_effects_def
          onAuthStateChanged_cb_def idle_clean_def effects_done_def errorMessages_def)
  next
    case (Some u)
    with ed assms(2) show ?thesis
      by (simp add: run_snoc step_def commit_event_def flush_effects_def profile_effect_def
          signed_out_effect_def onAuthStateChanged_cb_def effects_done_def errorMessages_def)
  qed
qed

lemma run_u1_missing:
  "run initialState
     [AuthStateChanged (Some \<lparr>oid = 1, uid = ''u1'', email = None\<rparr>), DocSnapshot None]
   = Some \<lparr>user = Some \<lparr>oid = 1, uid = ''u1'', email = None\<rparr>, profile = Undefined,
       authLoading = False,
       authErrorMessages = Some [''No profile doc found in Firestore at: users/u1''],
       docSub = Some ''users/u1'',
       effectUser = Some \<lparr>oid = 1, uid = ''u1'', email = None\<rparr>\<rparr>"
  by (simp add: step_def commit_event_def flush_effects_def profile_effect_def
      initialState_def onAuthStateChanged_cb_def snapshot_next_def no_profile_msg_def
      PROFILE_COLLECTION_def doc_def segments_def)

theorem identity_none_resets_session_witness:
  "list_all is_stream_event
     [AuthStateChanged (Some \<lparr>oid = 1, uid = ''u1'', email = None\<rparr>), DocSnapshot None]
   \<and> run initialState
       [AuthStateChanged (Some \<lparr>oid = 1, uid = ''u1'', email = None\<rparr>), DocSnapshot None]
     = Some \<lparr>user = Some \<lparr>oid = 1, uid = ''u1'', email = None\<rparr>, profile = Undefined,
         authLoading = False,
         authErrorMessages = Some [''No profile doc found in Firestore at: users/u1''],
         docSub = Some ''users/u1'',
         effectUser = Some \<lparr>oid = 1, uid = ''u1'', email = None\<rparr>\<rparr>
   \<and> map_option profile (run initialState
       ([AuthStateChanged (Some \<lparr>oid = 1, uid = ''u1'', email = None\<rparr>), DocSnapshot None]
        @ [AuthStateChanged None])) = Some Null
   \<and> map_option errorMessages (run initialState
       ([AuthStateChanged (Some \<lparr>oid = 1, uid = ''u1'', email = None\<rparr>), DocSnapshot None]
        @ [AuthStateChanged None])) = Some []
   \<and> map_option authLoading (run initialState
       ([AuthStateChanged (Some \<lparr>oid = 1, uid = ''u1'', email = None\<rparr>), DocSnapshot None]
        @ [AuthStateChanged None])) = Some True"
proof -
  have h: "list_all is_stream_event
     [AuthStateChanged (Some \<lparr>oid = 1, uid = ''u1'', email = None\<rparr>), DocSnapshot None]"
    by simp
  from identity_none_resets_session [OF h run_u1_missing] h run_u1_missing
  show ?thesis by simp
qed

text \<open>
  The first event after mount delivers none: the stored user does not change, the profile
  effect does not run, and the loading flag stays false as the callback set it.
\<close>

theorem first_none_event_counterexample:
  "map_option authLoading (run initialState [AuthStateChanged None]) = Some False"
  by (simp add: step_def commit_event_def flush_effects_def initialState_def
      onAuthStateChanged_cb_def)

text \<open>
  C7. After any sequence of events that leaves the provider mounted, and then the identity
  stream delivering an identity as the service issues it (an id of one path segment),
  the session settles as follows: when the store holds a document at \<open>users/<id>\<close>, the
  profile is that document and loading is false; when it holds none, the profile is
  none, the error list is the \<open>No profile doc found in Firestore at: users/<id>\<close>
  message, and loading is false.
\<close>

theorem profile_settles_for_identity:
  assumes "run initialState es = Some s" and "single_segment (uid u)"
  shows "(case store (''users/'' @ uid u) of
            Some d \<Rightarrow>
              map_option (\<lambda>s'. (profile (settle store s'), authLoading (settle store s')))
                (run initialState (es @ [AuthStateChanged (Some u)]))
              = Some (Data d, False)
          | None \<Rightarrow>
              map_option (\<lambda>s'. (profile (settle store s'), authErrorMessages (settle store s'),
                                 authLoading (settle store s')))
                (run initialState (es @ [AuthStateChanged (Some u)]))
              = Some (Undefined,
                      Some [''No profile doc found in Firestore at: users/'' @ uid u],
                      False))"
proof -
  have "effects_done s"
    using assms(1) effects_done_initial by (rule effects_done_run [rotated])
  from step_identity [OF this assms(2)] obtain s2 where
    s2: "step s (AuthStateChanged (Some u)) = Some s2"
      "docSub s2 = Some (''users/'' @ uid u)" "\<not> authLoading s2"
    by blast
  have r: "run initialState (es @ [AuthStateChanged (Some u)]) = Some s2"
    using assms(1) s2(1) by (simp add: run_snoc)
  show ?thesis
    unfolding r using s2(2,3)
    by (simp add: settle_def snapshot_next_def no_profile_msg_def split: option.splits)
qed

theorem profile_settles_for_identity_witness:
  "run initialState [] = Some initialState
   \<and> single_segment (uid \<lparr>oid = 1, uid = ''u1'', email = None\<rparr>)
   \<and> map_option
       (\<lambda>s'. (profile (settle (\<lambda>p. if p = ''users/u1'' then Some [(''displayName'', Str ''Carl'')]
                                   else None) s'),
              authLoading (settle (\<lambda>p. if p = ''users/u1'' then Some [(''displayName'', Str ''Carl'')]
                                   else None) s')))
       (run initialState ([] @ [AuthStateChanged (Some \<lparr>oid = 1, uid = ''u1'', email = None\<rparr>)]))
     = Some (Data [(''displayName'', Str ''Carl'')], False)"
proof -
  have e: "run initialState [] = Some initialState" by simp
  have h: "single_segment (uid \<lparr>oid = 1, uid = ''u1'', email = None\<rparr>)"
    by (simp add: single_segment_def)
  show ?thesis
    using e h profile_settles_for_identity [OF e h,
        of "\<lambda>p. if p = ''users/u1'' then Some [(''displayName'', Str ''Carl'')] else None"]
    by simp
qed

text \<open>
  C8, as the code has it. In every state reached from mount by any sequence of
  transitions (identity-stream events, document-stream events, login, logout, register),
  each taken to the end of its effects, a profile document is held only while an
  identity is held.
\<close>

theorem profile_requires_identity:
  assumes "run initialState es = Some s" and "is_document (profile s)"
  shows "user s \<noteq> None"
proof -
  have "profile_needs_user initialState"
    by (simp add: profile_needs_user_def initialState_def)
  with effects_done_initial have "profile_needs_user s"
    using assms(1) by (rule profile_needs_user_run)
  with assms(2) show ?thesis by (simp add: profile_needs_user_def)
qed

lemma run_u1_loaded:
  "run initialState
     [AuthStateChanged (Some \<lparr>oid = 1, uid = ''u1'', email = Some ''a@x.com''\<rparr>),
      DocSnapshot (Some [(''displayName'', Str ''Carl'')])]
   = Some \<lparr>user = Some \<lparr>oid = 1, uid = ''u1'', email = Some ''a@x.com''\<rparr>,
       profile = Data [(''displayName'', Str ''Carl'')], authLoading = False,
       authErrorMessages = None, docSub = Some ''users/u1'',
       effectUser = Some \<lparr>oid = 1, uid = ''u1'', email = Some ''a@x.com''\<rparr>\<rparr>"
  by (simp add: step_def commit_event_def flush_effects_def profile_effect_def
      initialState_def onAuthStateChanged_cb_def snapshot_next_def
      PROFILE_COLLECTION_def doc_def segments_def)

theorem profile_requires_identity_witness:
  "run initialState
     [AuthStateChanged (Some \<lparr>oid = 1, uid = ''u1'', email = Some ''a@x.com''\<rparr>),
      DocSnapshot (Some [(''displayName'', Str ''Carl'')])]
   = Some \<lparr>user = Some \<lparr>oid = 1, uid = ''u1'', email = Some ''a@x.com''\<rparr>,
       profile = Data [(''displayName'', Str ''Carl'')], authLoading = False,
       authErrorMessages = None, docSub = Some ''users/u1'',
       effectUser = Some \<lparr>oid = 1, uid = ''u1'', email = Some ''a@x.com''\<rparr>\<rparr>
   \<and> is_document (profile \<lparr>user = Some \<lparr>oid = 1, uid = ''u1'', email = Some ''a@x.com''\<rparr>,
       profile = Data [(''displayName'', Str ''Carl'')], authLoading = False,
       authErrorMessages = None, docSub = Some ''users/u1'',
       effectUser = Some \<lparr>oid = 1, uid = ''u1'', email = Some ''a@x.com''\<rparr>\<rparr>)
   \<and> user \<lparr>user = Some \<lparr>oid = 1, uid = ''u1'', email = Some ''a@x.com''\<rparr>,
       profile = Data [(''displayName'', Str ''Carl'')], authLoading = False,
       authErrorMessages = None, docSub = Some ''users/u1'',
       effectUser = Some \<lparr>oid = 1, uid = ''u1'', email = Some ''a@x.com''\<rparr>\<rparr> \<noteq> None"
proof -
  have d: "is_document (profile \<lparr>user = Some \<lparr>oid = 1, uid = ''u1'', email = Some ''a@x.com''\<rparr>,
       profile = Data [(''displayName'', Str ''Carl'')], authLoading = False,
       authErrorMessages = None, docSub = Some ''users/u1'',
       effectUser = Some \<lparr>oid = 1, uid = ''u1'', email = Some ''a@x.com''\<rparr>\<rparr>)"
    by simp
  from profile_requires_identity [OF run_u1_loaded d] run_u1_loaded d show ?thesis
    by blast
qed

text \<open>
  Before the effect: with a profile loaded, the identity stream delivers none. The render
  React commits for it has no user, is not loading and still holds the document, and
  \<open>AuthProvider\<close> hands these values to its children; the reset of lines 104-106 comes
  only with the effect that follows.
\<close>

theorem committed_render_counterexample:
  "run initialState
     [AuthStateChanged (Some \<lparr>oid = 1, uid = ''u1'', email = Some ''a@x.com''\<rparr>),
      DocSnapshot (Some [(''displayName'', Str ''Carl'')])]
   = Some \<lparr>user = Some \<lparr>oid = 1, uid = ''u1'', email = Some ''a@x.com''\<rparr>,
       profile = Data [(''displayName'', Str ''Carl'')], authLoading = False,
       authErrorMessages = None, docSub = Some ''users/u1'',
       effectUser = Some \<lparr>oid = 1, uid = ''u1'', email = Some ''a@x.com''\<rparr>\<rparr>
   \<and> commit_event
       \<lparr>user = Some \<lparr>oid = 1, uid = ''u1'', email = Some ''a@x.com''\<rparr>,
        profile = Data [(''displayName'', Str ''Carl'')], authLoading = False,
        authErrorMessages = None, docSub = Some ''users/u1'',
        effectUser = Some \<lparr>oid = 1, uid = ''u1'', email = Some ''a@x.com''\<rparr>\<rparr>
       (AuthStateChanged None)
     = \<lparr>user = None, profile = Data [(''displayName'', Str ''Carl'')], authLoading = False,
        authErrorMessages = None, docSub = Some ''users/u1'',
        effectUser = Some \<lparr>oid = 1, uid = ''u1'', email = Some ''a@x.com''\<rparr>\<rparr>
   \<and> AuthProvider
       \<lparr>user = None, profile = Data [(''displayName'', Str ''Carl'')], authLoading = False,
        authErrorMessages = None, docSub = Some ''users/u1'',
        effectUser = Some \<lparr>oid = 1, uid = ''u1'', email = Some ''a@x.com''\<rparr>\<rparr>
     = Some (Values \<lparr>ctxErrorMessages = None, ctxLoading = False,
               ctxProfile = Data [(''displayName'', Str ''Carl'')], ctxUser = None\<rparr>)"
  using run_u1_loaded
  by (simp add: commit_event_def onAuthStateChanged_cb_def AuthProvider_def theValues_def)

section \<open>Configuration check of the client provider\<close>




end
